theory Spec2Isabelle
  imports Main
begin

section \<open>JavaScript values\<close>

text \<open>
  The controller and the adapters are TypeScript, but the payloads they touch are typed
  \<^verbatim>\<open>any\<close> or come from a body parser, so at run time every JavaScript value a parsed
  JSON document can hold may appear, and \<^verbatim>\<open>undefined\<close> for a missing one.  A number
  stands for an integer a double holds exactly (below \<^verbatim>\<open>2^53\<close> in size), the range in
  which \<^verbatim>\<open>Number.prototype.toString\<close> prints the decimal numeral; larger and fractional
  numbers are outside the model.  An object is the list of its own properties.
\<close>

datatype jsval =
    JUndefined
  | JNull
  | JBool bool
  | JNum int
  | JStr string
  | JArr "jsval list"
  | JObj "(string \<times> jsval) list"

text \<open>
  What a rejected promise can carry: the TypeError of the language itself, and the errors
  with which the two transports refuse a status code.
\<close>

datatype error = TypeError | RangeError | FST_ERR_BAD_STATUS_CODE

definition nullish :: "jsval \<Rightarrow> bool" where
  "nullish v = (v = JUndefined \<or> v = JNull)"

text \<open>ToBoolean, the test of \<^verbatim>\<open>if (v)\<close> and of \<^verbatim>\<open>v || d\<close>.\<close>

fun truthy :: "jsval \<Rightarrow> bool" where
  "truthy JUndefined = False"
| "truthy JNull = False"
| "truthy (JBool b) = b"
| "truthy (JNum n) = (n \<noteq> 0)"
| "truthy (JStr s) = (s \<noteq> [])"
| "truthy (JArr xs) = True"
| "truthy (JObj kvs) = True"

text \<open>
  Reading a property of a value that is neither null nor undefined.  Only own properties
  are looked up: the keys the code reads, \<^verbatim>\<open>name\<close> and \<^verbatim>\<open>message\<close>, are defined by no
  built-in prototype, and are neither an index nor \<^verbatim>\<open>length\<close>, so arrays and primitives
  answer \<^verbatim>\<open>undefined\<close>.
\<close>

fun own_prop :: "jsval \<Rightarrow> string \<Rightarrow> jsval" where
  "own_prop (JObj kvs) k = (case map_of kvs k of None \<Rightarrow> JUndefined | Some v \<Rightarrow> v)"
| "own_prop v k = JUndefined"

text \<open>\<^verbatim>\<open>v.k\<close>: a TypeError on null and undefined.\<close>

definition get_prop :: "jsval \<Rightarrow> string \<Rightarrow> error + jsval" where
  "get_prop v k = (if nullish v then Inl TypeError else Inr (own_prop v k))"

text \<open>\<^verbatim>\<open>v?.k\<close>: undefined on null and undefined, and never an exception.\<close>

definition opt_prop :: "jsval \<Rightarrow> string \<Rightarrow> jsval" where
  "opt_prop v k = (if nullish v then JUndefined else own_prop v k)"

fun digit :: "nat \<Rightarrow> char" where
  "digit n = ''0123456789'' ! (n mod 10)"

fun show_nat :: "nat \<Rightarrow> string" where
  "show_nat n = (if n < 10 then [digit n] else show_nat (n div 10) @ [digit n])"

definition show_int :: "int \<Rightarrow> string" where
  "show_int i = (if i < 0 then CHR ''-'' # show_nat (nat (- i)) else show_nat (nat i))"

text \<open>
  ToString, which a template literal applies to each substitution.  An object is converted
  through its \<^verbatim>\<open>toString\<close> method: the inherited one answers \<^verbatim>\<open>[object Object]\<close>, but an
  own property of that name holds parsed data, which is not callable, and then
  the inherited \<^verbatim>\<open>valueOf\<close> gives no primitive either and the conversion raises a TypeError.
  An array joins its elements with commas, null and undefined elements printing as the
  empty string.
\<close>

fun to_string :: "jsval \<Rightarrow> error + string"
  and join :: "jsval list \<Rightarrow> error + string" where
  "to_string JUndefined = Inr ''undefined''"
| "to_string JNull = Inr ''null''"
| "to_string (JBool b) = Inr (if b then ''true'' else ''false'')"
| "to_string (JNum n) = Inr (show_int n)"
| "to_string (JStr s) = Inr s"
| "to_string (JArr xs) = join xs"
| "to_string (JObj kvs) =
     (if map_of kvs ''toString'' = None then Inr ''[object Object]'' else Inl TypeError)"
| "join [] = Inr []"
| "join [x] = (if x = JUndefined \<or> x = JNull then Inr [] else to_string x)"
| "join (x # y # ys) =
     (case (if x = JUndefined \<or> x = JNull then Inr [] else to_string x) of
        Inl e \<Rightarrow> Inl e
      | Inr a \<Rightarrow> (case join (y # ys) of
                   Inl e \<Rightarrow> Inl e
                 | Inr b \<Rightarrow> Inr (a @ '','' @ b)))"


section \<open>The neutral request and response (common/interfaces)\<close>

text \<open>
  Header values as Node delivers them: a string, or a list of strings for a header that
  may repeat.  The header object is the list of its entries, keyed by the lower-case name.
\<close>

datatype header_value = HString string | HArray "string list"

type_synonym headers = "(string \<times> header_value) list"

record HttpRequest =
  body :: jsval
  params :: jsval
  headers :: headers
  userId :: "string option"
  workspaceId :: "string option"

record HttpResponse =
  statusCode :: int
  body :: jsval


section \<open>CommonController\<close>

text \<open>
  \<^verbatim>\<open>handle\<close> is an async method: its result is a promise, fulfilled with a response
  (\<open>Inr\<close>) or rejected with what the body threw (\<open>Inl\<close>).  The \<^verbatim>\<open>console.log\<close> of the
  success branch writes to the process output only and is left out.
\<close>

definition handle :: "HttpRequest \<Rightarrow> error + HttpResponse" where
  "handle httpRequest =
     (case get_prop (HttpRequest.body httpRequest) ''name'' of
        Inl e \<Rightarrow> Inl e
      | Inr name \<Rightarrow>
          if truthy name then
            (case to_string name of
               Inl e \<Rightarrow> Inl e
             | Inr s \<Rightarrow>
                 Inr \<lparr>statusCode = 200,
                      body = JObj [(''message'', JStr (''Hello, '' @ s @ ''!''))]\<rparr>)
          else
            Inr \<lparr>statusCode = 400,
                 body = JObj [(''message'', JStr ''Name is required'')]\<rparr>)"

text \<open>A controller, as an adapter sees it: the \<^verbatim>\<open>handle\<close> method of the instance it is given.\<close>

type_synonym CommonController = "HttpRequest \<Rightarrow> error + HttpResponse"


section \<open>The Express adapter\<close>

text \<open>
  The raw Express request, with the two fields the middleware attaches, and the Express
  response as the sequence of calls that took effect on it.
\<close>

record Request =
  body :: jsval
  params :: jsval
  headers :: headers
  userId :: "string option"
  workspaceId :: "string option"

datatype res_call = Status int | Json jsval

type_synonym Response = "res_call list"

text \<open>
  \<^verbatim>\<open>res.status(code)\<close>.  Express takes the integers from 100 to 999 as a status code and
  refuses any other with a RangeError; the exception leaves the handler, which catches
  nothing, before a body is written.
\<close>

definition status :: "int \<Rightarrow> Response \<Rightarrow> error + Response" where
  "status code res =
     (if 100 \<le> code \<and> code \<le> 999 then Inr (res @ [Status code]) else Inl RangeError)"

definition json :: "jsval \<Rightarrow> Response \<Rightarrow> Response" where
  "json payload res = res @ [Json payload]"

text \<open>The object literal that the Express handler builds from the raw request.\<close>

definition expressHttpRequest :: "Request \<Rightarrow> HttpRequest" where
  "expressHttpRequest req =
     \<lparr>HttpRequest.body = Request.body req,
      HttpRequest.params = Request.params req,
      HttpRequest.headers = Request.headers req,
      HttpRequest.userId = Request.userId req,
      HttpRequest.workspaceId = Request.workspaceId req\<rparr>"

definition expressRouteAdapter :: "CommonController \<Rightarrow> Request \<Rightarrow> Response \<Rightarrow> error + Response" where
  "expressRouteAdapter controller req res =
     (case controller (expressHttpRequest req) of
        Inl e \<Rightarrow> Inl e
      | Inr httpResponse \<Rightarrow>
          if statusCode httpResponse \<ge> 200 \<and> statusCode httpResponse \<le> 299 then
            (case status (statusCode httpResponse) res of
               Inl e \<Rightarrow> Inl e
             | Inr res' \<Rightarrow> Inr (json (HttpResponse.body httpResponse) res'))
          else
            (case status (statusCode httpResponse) res of
               Inl e \<Rightarrow> Inl e
             | Inr res' \<Rightarrow>
                 Inr (json (JObj [(''error'', opt_prop (HttpResponse.body httpResponse) ''message'')])
                        res')))"


section \<open>The Fastify adapter\<close>

record FastifyRequest =
  body :: jsval
  params :: jsval
  headers :: headers
  userId :: "string option"
  workspaceId :: "string option"

datatype reply_call = ReplyStatus int | Send jsval

type_synonym FastifyReply = "reply_call list"

text \<open>
  \<^verbatim>\<open>reply.status(code)\<close>.  Fastify takes the integers from 100 to 599 and refuses any
  other with its error \<^verbatim>\<open>FST_ERR_BAD_STATUS_CODE\<close>, thrown before \<^verbatim>\<open>send\<close> is reached.
\<close>

definition reply_status :: "int \<Rightarrow> FastifyReply \<Rightarrow> error + FastifyReply" where
  "reply_status code reply =
     (if 100 \<le> code \<and> code \<le> 599 then Inr (reply @ [ReplyStatus code])
      else Inl FST_ERR_BAD_STATUS_CODE)"

definition send :: "jsval \<Rightarrow> FastifyReply \<Rightarrow> FastifyReply" where
  "send payload reply = reply @ [Send payload]"

definition fastifyHttpRequest :: "FastifyRequest \<Rightarrow> HttpRequest" where
  "fastifyHttpRequest request =
     \<lparr>HttpRequest.body = FastifyRequest.body request,
      HttpRequest.params = FastifyRequest.params request,
      HttpRequest.headers = FastifyRequest.headers request,
      HttpRequest.userId = FastifyRequest.userId request,
      HttpRequest.workspaceId = FastifyRequest.workspaceId request\<rparr>"

definition fastifyRouteAdapter ::
    "CommonController \<Rightarrow> FastifyRequest \<Rightarrow> FastifyReply \<Rightarrow> error + FastifyReply" where
  "fastifyRouteAdapter controller request reply =
     (case controller (fastifyHttpRequest request) of
        Inl e \<Rightarrow> Inl e
      | Inr httpResponse \<Rightarrow>
          if HttpResponse.statusCode httpResponse \<ge> 200 \<and> HttpResponse.statusCode httpResponse \<le> 299 then
            (case reply_status (HttpResponse.statusCode httpResponse) reply of
               Inl e \<Rightarrow> Inl e
             | Inr reply' \<Rightarrow> Inr (send (HttpResponse.body httpResponse) reply'))
          else
            (case reply_status (HttpResponse.statusCode httpResponse) reply of
               Inl e \<Rightarrow> Inl e
             | Inr reply' \<Rightarrow>
                 Inr (send (JObj [(''error'', opt_prop (HttpResponse.body httpResponse) ''message'')])
                        reply')))"


section \<open>The middleware of the two apps\<close>

text \<open>\<^verbatim>\<open>toString()\<close> of a header value; an array prints its entries separated by commas.\<close>

fun commas :: "string list \<Rightarrow> string" where
  "commas [] = []"
| "commas [s] = s"
| "commas (s # t # ts) = s @ '','' @ commas (t # ts)"

fun header_toString :: "header_value \<Rightarrow> string" where
  "header_toString (HString s) = s"
| "header_toString (HArray ss) = commas ss"

text \<open>\<^verbatim>\<open>headers[k]?.toString()\<close>: undefined (\<open>None\<close>) when the header is not there.\<close>

definition header_string :: "headers \<Rightarrow> string \<Rightarrow> string option" where
  "header_string hs k = map_option header_toString (map_of hs k)"

text \<open>\<^verbatim>\<open>s || d\<close> on an optional string: the default replaces undefined and the empty string.\<close>

fun or_default :: "string option \<Rightarrow> string \<Rightarrow> string" where
  "or_default None d = d"
| "or_default (Some s) d = (if s = [] then d else s)"

text \<open>expressApp.ts; the call of \<^verbatim>\<open>next\<close> hands the request on.\<close>

definition simpleMiddleware_express :: "Request \<Rightarrow> Request" where
  "simpleMiddleware_express req =
     req\<lparr>Request.userId := Some (or_default (header_string (Request.headers req) ''userid'') ''default''),
         Request.workspaceId := header_string (Request.headers req) ''workspaceid''\<rparr>"

text \<open>The Fastify app; the call of \<^verbatim>\<open>done\<close> hands the request on.\<close>

definition simpleMiddleware_fastify :: "FastifyRequest \<Rightarrow> FastifyRequest" where
  "simpleMiddleware_fastify request =
     request\<lparr>FastifyRequest.userId :=
               Some (or_default (header_string (FastifyRequest.headers request) ''userid'') ''default''),
             FastifyRequest.workspaceId := header_string (FastifyRequest.headers request) ''workspaceid''\<rparr>"

text \<open>The \<^verbatim>\<open>POST /greet\<close> route of each app: the middleware, then the adapter's handler.\<close>

definition express_greet :: "Request \<Rightarrow> Response \<Rightarrow> error + Response" where
  "express_greet req res = expressRouteAdapter handle (simpleMiddleware_express req) res"

definition fastify_greet :: "FastifyRequest \<Rightarrow> FastifyReply \<Rightarrow> error + FastifyReply" where
  "fastify_greet request reply = fastifyRouteAdapter handle (simpleMiddleware_fastify request) reply"


section \<open>Example requests\<close>

text \<open>Requests as they reach the controller and the adapters, for a given body and headers.\<close>

definition request_of :: "jsval \<Rightarrow> HttpRequest" where
  "request_of b =
     \<lparr>HttpRequest.body = b, HttpRequest.params = JObj [], HttpRequest.headers = [],
      HttpRequest.userId = Some ''default'', HttpRequest.workspaceId = None\<rparr>"

definition express_request :: "jsval \<Rightarrow> headers \<Rightarrow> Request" where
  "express_request b hs =
     \<lparr>Request.body = b, Request.params = JObj [], Request.headers = hs,
      Request.userId = None, Request.workspaceId = None\<rparr>"

definition fastify_request :: "jsval \<Rightarrow> headers \<Rightarrow> FastifyRequest" where
  "fastify_request b hs =
     \<lparr>FastifyRequest.body = b, FastifyRequest.params = JObj [], FastifyRequest.headers = hs,
      FastifyRequest.userId = None, FastifyRequest.workspaceId = None\<rparr>"

text \<open>A controller that answers every request with a given status code and body.\<close>

definition answering :: "int \<Rightarrow> jsval \<Rightarrow> CommonController" where
  "answering code b httpRequest = Inr \<lparr>statusCode = code, body = b\<rparr>"


section \<open>The controller\<close>

text \<open>The three ways \<^verbatim>\<open>handle\<close> can end, by the body and the name found in it.\<close>

lemma handle_cases:
  "handle req =
     (if nullish (HttpRequest.body req) then Inl TypeError
      else if \<not> truthy (own_prop (HttpRequest.body req) ''name'') then
        Inr \<lparr>statusCode = 400, body = JObj [(''message'', JStr ''Name is required'')]\<rparr>
      else case to_string (own_prop (HttpRequest.body req) ''name'') of
        Inl e \<Rightarrow> Inl e
      | Inr s \<Rightarrow>
          Inr \<lparr>statusCode = 200, body = JObj [(''message'', JStr (''Hello, '' @ s @ ''!''))]\<rparr>)"
  by (simp add: handle_def get_prop_def)

lemma own_prop_not_obj: "\<forall>kvs. v \<noteq> JObj kvs \<Longrightarrow> own_prop v k = JUndefined"
  by (cases v) simp_all

text \<open>
  C1.  For every request whose body maps \<^verbatim>\<open>name\<close> to a non-empty string \<open>S\<close>, \<^verbatim>\<open>handle\<close>
  returns the response with status code 200 whose body has the message
  \<^verbatim>\<open>Hello, \<close>\<open>S\<close>\<^verbatim>\<open>!\<close>.
\<close>

theorem handle_greets:
  assumes "HttpRequest.body req = JObj kvs"
    and "map_of kvs ''name'' = Some (JStr S)"
    and "S \<noteq> []"
  shows "handle req =
           Inr \<lparr>statusCode = 200, body = JObj [(''message'', JStr (''Hello, '' @ S @ ''!''))]\<rparr>"
  using assms by (simp add: handle_def get_prop_def nullish_def)

theorem handle_greets_witness:
  "handle (request_of (JObj [(''name'', JStr ''Ada'')])) =
     Inr \<lparr>statusCode = 200, body = JObj [(''message'', JStr ''Hello, Ada!'')]\<rparr>"
  using handle_greets [of "request_of (JObj [(''name'', JStr ''Ada'')])"
      "[(''name'', JStr ''Ada'')]" "''Ada''"]
  by (simp add: request_of_def)

text \<open>
  C2.  For every request whose body has \<^verbatim>\<open>name\<close> absent, empty, or falsy, \<^verbatim>\<open>handle\<close>
  returns the response with status code 400 whose body has the message
  \<^verbatim>\<open>Name is required\<close>.
\<close>

theorem handle_requires_name:
  assumes "HttpRequest.body req = JObj kvs"
    and "map_of kvs ''name'' = None \<or> map_of kvs ''name'' = Some (JStr [])
         \<or> (\<exists>v. map_of kvs ''name'' = Some v \<and> \<not> truthy v)"
  shows "handle req =
           Inr \<lparr>statusCode = 400, body = JObj [(''message'', JStr ''Name is required'')]\<rparr>"
  using assms by (auto simp add: handle_cases nullish_def)

theorem handle_requires_name_witness:
  "handle (request_of (JObj [])) =
     Inr \<lparr>statusCode = 400, body = JObj [(''message'', JStr ''Name is required'')]\<rparr> \<and>
   handle (request_of (JObj [(''name'', JStr [])])) =
     Inr \<lparr>statusCode = 400, body = JObj [(''message'', JStr ''Name is required'')]\<rparr> \<and>
   handle (request_of (JObj [(''name'', JNum 0)])) =
     Inr \<lparr>statusCode = 400, body = JObj [(''message'', JStr ''Name is required'')]\<rparr>"
  using handle_requires_name [of "request_of (JObj [])" "[]"]
    handle_requires_name [of "request_of (JObj [(''name'', JStr [])])" "[(''name'', JStr [])]"]
    handle_requires_name [of "request_of (JObj [(''name'', JNum 0)])" "[(''name'', JNum 0)]"]
  by (simp add: request_of_def)

text \<open>
  C4, as the claim states it, fails: a request whose body is null is not answered with the 400
  response; reading \<^verbatim>\<open>name\<close> from it raises a TypeError and \<^verbatim>\<open>handle\<close> rejects.
\<close>

theorem handle_null_body_counterexample:
  "handle (request_of JNull) = Inl TypeError \<and>
   handle (request_of JNull) \<noteq>
     Inr \<lparr>statusCode = 400, body = JObj [(''message'', JStr ''Name is required'')]\<rparr>"
  by (simp add: handle_def get_prop_def nullish_def request_of_def)

text \<open>
  C4, amended.  \<^verbatim>\<open>handle\<close> rejects with a TypeError when the body is null or undefined.
  A body that is present but is not a mapping (a string, a number, a boolean, an array) is
  treated as "name absent" and yields the 400 \<^verbatim>\<open>Name is required\<close> response.  In general
  \<^verbatim>\<open>handle\<close> returns normally exactly when the body is neither null nor undefined and the
  name, if truthy, can be converted to a string.
\<close>

theorem handle_total_on_present_body:
  "(nullish (HttpRequest.body req) \<longrightarrow> handle req = Inl TypeError) \<and>
   (\<not> nullish (HttpRequest.body req) \<and> (\<forall>kvs. HttpRequest.body req \<noteq> JObj kvs) \<longrightarrow>
      handle req =
        Inr \<lparr>statusCode = 400, body = JObj [(''message'', JStr ''Name is required'')]\<rparr>) \<and>
   ((\<exists>r. handle req = Inr r) =
      (\<not> nullish (HttpRequest.body req) \<and>
       (truthy (own_prop (HttpRequest.body req) ''name'') \<longrightarrow>
          (\<exists>s. to_string (own_prop (HttpRequest.body req) ''name'') = Inr s))))"
  by (auto simp add: handle_cases own_prop_not_obj split: sum.splits)

theorem handle_total_on_present_body_witness:
  "handle (request_of JUndefined) = Inl TypeError \<and>
   handle (request_of (JStr ''Ada'')) =
     Inr \<lparr>statusCode = 400, body = JObj [(''message'', JStr ''Name is required'')]\<rparr> \<and>
   (\<exists>r. handle (request_of (JObj [(''name'', JArr [JNum 1, JNull])])) = Inr r)"
  using handle_total_on_present_body [of "request_of JUndefined"]
    handle_total_on_present_body [of "request_of (JStr ''Ada'')"]
    handle_total_on_present_body [of "request_of (JObj [(''name'', JArr [JNum 1, JNull])])"]
  by (simp add: request_of_def nullish_def show_int_def)

text \<open>
  C9.  Every response that \<^verbatim>\<open>handle\<close> returns has status code 200 or 400, and its body is
  exactly \<^verbatim>\<open>{message: m}\<close> for a non-empty string \<open>m\<close>; so the \<^verbatim>\<open>body?.message\<close> that the
  adapters read for their error envelope is that string, never undefined.
\<close>

theorem handle_response_shape:
  assumes "handle req = Inr r"
  shows "(statusCode r = 200 \<or> statusCode r = 400) \<and>
         (\<exists>m. m \<noteq> [] \<and> HttpResponse.body r = JObj [(''message'', JStr m)] \<and>
              opt_prop (HttpResponse.body r) ''message'' = JStr m)"
  using assms
  by (auto simp add: handle_cases opt_prop_def nullish_def split: if_splits sum.splits)

theorem handle_response_shape_witness:
  "handle (request_of (JObj [(''name'', JBool True)])) =
     Inr \<lparr>statusCode = 200, body = JObj [(''message'', JStr ''Hello, true!'')]\<rparr> \<and>
   (\<exists>m. m \<noteq> [] \<and> JObj [(''message'', JStr ''Hello, true!'')] = JObj [(''message'', JStr m)] \<and>
        opt_prop (JObj [(''message'', JStr ''Hello, true!'')]) ''message'' = JStr m)"
proof -
  have h: "handle (request_of (JObj [(''name'', JBool True)])) =
      Inr \<lparr>statusCode = 200, body = JObj [(''message'', JStr ''Hello, true!'')]\<rparr>"
    by (simp add: handle_def get_prop_def nullish_def request_of_def)
  show ?thesis
    using h handle_response_shape [OF h] by simp
qed


section \<open>The adapters\<close>

text \<open>What each handler does once the controller has answered, by the status code.\<close>

lemma expressRouteAdapter_Inr:
  "controller (expressHttpRequest req) = Inr r \<Longrightarrow>
   expressRouteAdapter controller req res =
     (if 100 \<le> statusCode r \<and> statusCode r \<le> 999 then
        Inr (res @ [Status (statusCode r),
                    Json (if 200 \<le> statusCode r \<and> statusCode r \<le> 299 then HttpResponse.body r
                          else JObj [(''error'', opt_prop (HttpResponse.body r) ''message'')])])
      else Inl RangeError)"
  by (simp add: expressRouteAdapter_def status_def json_def)

lemma fastifyRouteAdapter_Inr:
  "controller (fastifyHttpRequest request) = Inr r \<Longrightarrow>
   fastifyRouteAdapter controller request reply =
     (if 100 \<le> statusCode r \<and> statusCode r \<le> 599 then
        Inr (reply @ [ReplyStatus (statusCode r),
                      Send (if 200 \<le> statusCode r \<and> statusCode r \<le> 299 then HttpResponse.body r
                            else JObj [(''error'', opt_prop (HttpResponse.body r) ''message'')])])
      else Inl FST_ERR_BAD_STATUS_CODE)"
  by (simp add: fastifyRouteAdapter_def reply_status_def send_def)

lemma handle_status: "handle h = Inr r \<Longrightarrow> statusCode r = 200 \<or> statusCode r = 400"
  by (auto simp add: handle_cases split: if_splits sum.splits)

text \<open>
  C3, as the claim states it, fails: bound to one controller that answers with the status
  code 600, and given the same raw request, the Express handler writes the status and the
  error envelope, while the Fastify handler rejects and writes nothing.
\<close>

theorem adapters_diverge_counterexample:
  "expressRouteAdapter (answering 600 (JObj [(''message'', JStr ''late'')]))
     (express_request (JObj []) []) [] =
     Inr [Status 600, Json (JObj [(''error'', JStr ''late'')])] \<and>
   fastifyRouteAdapter (answering 600 (JObj [(''message'', JStr ''late'')]))
     (fastify_request (JObj []) []) [] =
     Inl FST_ERR_BAD_STATUS_CODE"
  by (simp add: expressRouteAdapter_def fastifyRouteAdapter_def answering_def status_def
      json_def reply_status_def opt_prop_def nullish_def)

text \<open>
  C3, amended.  For raw requests that agree on body, params, headers, userId and
  workspaceId, the handler that \<^verbatim>\<open>expressRouteAdapter\<close> returns and the handler that
  \<^verbatim>\<open>fastifyRouteAdapter\<close> returns, bound to the same controller, assemble the same neutral
  request.  If the controller rejects, both reject with its error; if it answers with a
  status code that both transports accept, from 100 to 599, both set that status and then
  write the same body.  For \<^verbatim>\<open>CommonController.handle\<close> itself this is every case.
\<close>

theorem adapters_interchangeable:
  assumes "Request.body req = FastifyRequest.body request"
    and "Request.params req = FastifyRequest.params request"
    and "Request.headers req = FastifyRequest.headers request"
    and "Request.userId req = FastifyRequest.userId request"
    and "Request.workspaceId req = FastifyRequest.workspaceId request"
  shows "expressHttpRequest req = fastifyHttpRequest request \<and>
         (\<forall>e. controller (fastifyHttpRequest request) = Inl e \<longrightarrow>
            expressRouteAdapter controller req res = Inl e \<and>
            fastifyRouteAdapter controller request reply = Inl e) \<and>
         (\<forall>r. controller (fastifyHttpRequest request) = Inr r \<and>
              100 \<le> statusCode r \<and> statusCode r \<le> 599 \<longrightarrow>
            (\<exists>payload.
               expressRouteAdapter controller req res =
                 Inr (res @ [Status (statusCode r), Json payload]) \<and>
               fastifyRouteAdapter controller request reply =
                 Inr (reply @ [ReplyStatus (statusCode r), Send payload]))) \<and>
         ((\<exists>e. expressRouteAdapter handle req res = Inl e \<and>
               fastifyRouteAdapter handle request reply = Inl e) \<or>
          (\<exists>code payload.
               expressRouteAdapter handle req res = Inr (res @ [Status code, Json payload]) \<and>
               fastifyRouteAdapter handle request reply =
                 Inr (reply @ [ReplyStatus code, Send payload])))"
proof -
  have eq: "expressHttpRequest req = fastifyHttpRequest request"
    using assms by (simp add: expressHttpRequest_def fastifyHttpRequest_def)
  have rejects: "\<forall>e. controller (fastifyHttpRequest request) = Inl e \<longrightarrow>
      expressRouteAdapter controller req res = Inl e \<and>
      fastifyRouteAdapter controller request reply = Inl e"
    by (simp add: eq expressRouteAdapter_def fastifyRouteAdapter_def)
  have answers: "\<forall>r. controller (fastifyHttpRequest request) = Inr r \<and>
        100 \<le> statusCode r \<and> statusCode r \<le> 599 \<longrightarrow>
      (\<exists>payload.
         expressRouteAdapter controller req res =
           Inr (res @ [Status (statusCode r), Json payload]) \<and>
         fastifyRouteAdapter controller request reply =
           Inr (reply @ [ReplyStatus (statusCode r), Send payload]))"
  proof (intro allI impI)
    fix r
    assume a: "controller (fastifyHttpRequest request) = Inr r \<and>
      100 \<le> statusCode r \<and> statusCode r \<le> 599"
    then have e: "controller (expressHttpRequest req) = Inr r"
      by (simp add: eq)
    from a show "\<exists>payload.
         expressRouteAdapter controller req res =
           Inr (res @ [Status (statusCode r), Json payload]) \<and>
         fastifyRouteAdapter controller request reply =
           Inr (reply @ [ReplyStatus (statusCode r), Send payload])"
      using e
      by (simp add: expressRouteAdapter_Inr [of controller req r]
          fastifyRouteAdapter_Inr [of controller request r])
  qed
  have own: "(\<exists>e. expressRouteAdapter handle req res = Inl e \<and>
        fastifyRouteAdapter handle request reply = Inl e) \<or>
      (\<exists>code payload.
        expressRouteAdapter handle req res = Inr (res @ [Status code, Json payload]) \<and>
        fastifyRouteAdapter handle request reply =
          Inr (reply @ [ReplyStatus code, Send payload]))"
  proof (cases "handle (fastifyHttpRequest request)")
    case (Inl e)
    then show ?thesis
      by (simp add: eq expressRouteAdapter_def fastifyRouteAdapter_def)
  next
    case (Inr r)
    then have e: "handle (expressHttpRequest req) = Inr r"
      by (simp add: eq)
    from handle_status [OF Inr] e Inr show ?thesis
      by (auto simp add: expressRouteAdapter_Inr [of handle req r]
          fastifyRouteAdapter_Inr [of handle request r])
  qed
  from eq rejects answers own show ?thesis
    by blast
qed

theorem adapters_interchangeable_witness:
  "expressHttpRequest (express_request (JObj [(''name'', JStr ''Ada'')]) [(''userid'', HString ''u1'')]) =
   fastifyHttpRequest (fastify_request (JObj [(''name'', JStr ''Ada'')]) [(''userid'', HString ''u1'')]) \<and>
   (\<exists>payload.
      expressRouteAdapter (answering 404 (JObj [(''message'', JStr ''gone'')]))
        (express_request (JObj [(''name'', JStr ''Ada'')]) [(''userid'', HString ''u1'')]) [] =
        Inr [Status 404, Json payload] \<and>
      fastifyRouteAdapter (answering 404 (JObj [(''message'', JStr ''gone'')]))
        (fastify_request (JObj [(''name'', JStr ''Ada'')]) [(''userid'', HString ''u1'')]) [] =
        Inr [ReplyStatus 404, Send payload])"
  using adapters_interchangeable
    [of "express_request (JObj [(''name'', JStr ''Ada'')]) [(''userid'', HString ''u1'')]"
        "fastify_request (JObj [(''name'', JStr ''Ada'')]) [(''userid'', HString ''u1'')]"
        "answering 404 (JObj [(''message'', JStr ''gone'')])" "[]" "[]"]
  by (simp add: express_request_def fastify_request_def answering_def)

text \<open>
  C5.  For every neutral response with a status code in [200, 299], the handler of each
  adapter sets exactly that status code on the reply and then writes the body of the
  response as it is, with no envelope; these two calls are all it adds.
\<close>

theorem adapters_success_identity:
  assumes "200 \<le> statusCode r" and "statusCode r \<le> 299"
  shows "(controller (expressHttpRequest req) = Inr r \<longrightarrow>
            expressRouteAdapter controller req res =
              Inr (res @ [Status (statusCode r), Json (HttpResponse.body r)])) \<and>
         (controller (fastifyHttpRequest request) = Inr r \<longrightarrow>
            fastifyRouteAdapter controller request reply =
              Inr (reply @ [ReplyStatus (statusCode r), Send (HttpResponse.body r)]))"
  using assms
  by (simp add: expressRouteAdapter_def fastifyRouteAdapter_def status_def json_def
      reply_status_def send_def)

theorem adapters_success_identity_witness:
  "expressRouteAdapter handle (express_request (JObj [(''name'', JStr ''Ada'')]) []) [] =
     Inr [Status 200, Json (JObj [(''message'', JStr ''Hello, Ada!'')])] \<and>
   fastifyRouteAdapter handle (fastify_request (JObj [(''name'', JStr ''Ada'')]) []) [] =
     Inr [ReplyStatus 200, Send (JObj [(''message'', JStr ''Hello, Ada!'')])]"
  using adapters_success_identity
    [of "\<lparr>statusCode = 200, body = JObj [(''message'', JStr ''Hello, Ada!'')]\<rparr>"
        handle "express_request (JObj [(''name'', JStr ''Ada'')]) []" "[]"
        "fastify_request (JObj [(''name'', JStr ''Ada'')]) []" "[]"]
  by (simp add: handle_def get_prop_def nullish_def express_request_def fastify_request_def
      expressHttpRequest_def fastifyHttpRequest_def)

text \<open>
  C6, as the claim states it, fails: the status code 99 is an integer outside [200, 299],
  yet neither handler writes it with an error envelope; each transport refuses the code,
  the handler rejects, and no body is written.
\<close>

theorem adapters_refused_status_counterexample:
  "expressRouteAdapter (answering 99 (JObj [(''message'', JStr ''low'')]))
     (express_request (JObj []) []) [] = Inl RangeError \<and>
   expressRouteAdapter (answering 99 (JObj [(''message'', JStr ''low'')]))
     (express_request (JObj []) []) [] \<noteq>
     Inr [Status 99, Json (JObj [(''error'', JStr ''low'')])] \<and>
   fastifyRouteAdapter (answering 99 (JObj [(''message'', JStr ''low'')]))
     (fastify_request (JObj []) []) [] = Inl FST_ERR_BAD_STATUS_CODE"
  by (simp add: expressRouteAdapter_def fastifyRouteAdapter_def answering_def status_def
      reply_status_def)

text \<open>
  C6, amended.  For every neutral response with a status code outside [200, 299] that the
  transport accepts as a status code (Express: 100 to 999, Fastify: 100 to 599), the
  handler of the adapter sets that status code and writes exactly
  \<^verbatim>\<open>{error: body.message}\<close>: an object with the one field \<^verbatim>\<open>error\<close>, holding the message
  of the original body, whose other fields are dropped.
\<close>

theorem adapters_error_envelope:
  assumes "\<not> (200 \<le> statusCode r \<and> statusCode r \<le> 299)"
  shows "(controller (expressHttpRequest req) = Inr r \<and>
            100 \<le> statusCode r \<and> statusCode r \<le> 999 \<longrightarrow>
            expressRouteAdapter controller req res =
              Inr (res @ [Status (statusCode r),
                          Json (JObj [(''error'', opt_prop (HttpResponse.body r) ''message'')])])) \<and>
         (controller (fastifyHttpRequest request) = Inr r \<and>
            100 \<le> statusCode r \<and> statusCode r \<le> 599 \<longrightarrow>
            fastifyRouteAdapter controller request reply =
              Inr (reply @ [ReplyStatus (statusCode r),
                            Send (JObj [(''error'', opt_prop (HttpResponse.body r) ''message'')])])) \<and>
         (\<forall>kvs m. HttpResponse.body r = JObj kvs \<and> map_of kvs ''message'' = Some m \<longrightarrow>
            opt_prop (HttpResponse.body r) ''message'' = m)"
  using assms
  by (auto simp add: expressRouteAdapter_def fastifyRouteAdapter_def status_def json_def
      reply_status_def send_def opt_prop_def nullish_def)

theorem adapters_error_envelope_witness:
  "expressRouteAdapter handle (express_request (JObj []) []) [] =
     Inr [Status 400, Json (JObj [(''error'', JStr ''Name is required'')])] \<and>
   fastifyRouteAdapter handle (fastify_request (JObj []) []) [] =
     Inr [ReplyStatus 400, Send (JObj [(''error'', JStr ''Name is required'')])]"
  using adapters_error_envelope
    [of "\<lparr>statusCode = 400, body = JObj [(''message'', JStr ''Name is required'')]\<rparr>"
        handle "express_request (JObj []) []" "[]" "fastify_request (JObj []) []" "[]"]
  by (simp add: handle_def get_prop_def nullish_def opt_prop_def express_request_def
      fastify_request_def expressHttpRequest_def fastifyHttpRequest_def)

text \<open>
  C10, as the claim states it, fails: the status code 0 is outside [200, 299] and the body
  is null, yet the handler of each adapter throws; the transport refuses the code and no
  envelope is written.
\<close>

theorem adapters_null_body_refused_status_counterexample:
  "expressRouteAdapter (answering 0 JNull) (express_request (JObj []) []) [] = Inl RangeError \<and>
   expressRouteAdapter (answering 0 JNull) (express_request (JObj []) []) [] \<noteq>
     Inr [Status 0, Json (JObj [(''error'', JUndefined)])] \<and>
   fastifyRouteAdapter (answering 0 JNull) (fastify_request (JObj []) []) [] =
     Inl FST_ERR_BAD_STATUS_CODE"
  by (simp add: expressRouteAdapter_def fastifyRouteAdapter_def answering_def status_def
      reply_status_def)

text \<open>
  C10, amended.  On the path of a status code outside [200, 299] that the transport
  accepts as a status code (Express: 100 to 999, Fastify: 100 to 599), a response whose
  body is null or undefined, or is a mapping without \<^verbatim>\<open>message\<close>, or is no mapping at
  all, does not make the handler of the adapter throw: it sets the status code and writes
  an envelope whose \<^verbatim>\<open>error\<close> is undefined.
\<close>

theorem adapters_error_envelope_total:
  assumes "\<not> (200 \<le> statusCode r \<and> statusCode r \<le> 299)"
    and "nullish (HttpResponse.body r)
         \<or> (\<exists>kvs. HttpResponse.body r = JObj kvs \<and> map_of kvs ''message'' = None)
         \<or> (\<forall>kvs. HttpResponse.body r \<noteq> JObj kvs)"
  shows "(controller (expressHttpRequest req) = Inr r \<and>
            100 \<le> statusCode r \<and> statusCode r \<le> 999 \<longrightarrow>
            expressRouteAdapter controller req res =
              Inr (res @ [Status (statusCode r), Json (JObj [(''error'', JUndefined)])])) \<and>
         (controller (fastifyHttpRequest request) = Inr r \<and>
            100 \<le> statusCode r \<and> statusCode r \<le> 599 \<longrightarrow>
            fastifyRouteAdapter controller request reply =
              Inr (reply @ [ReplyStatus (statusCode r), Send (JObj [(''error'', JUndefined)])]))"
proof -
  have "opt_prop (HttpResponse.body r) ''message'' = JUndefined"
    using assms(2) by (auto simp add: opt_prop_def own_prop_not_obj)
  with assms(1) show ?thesis
    by (auto simp add: expressRouteAdapter_def fastifyRouteAdapter_def status_def json_def
        reply_status_def send_def)
qed

theorem adapters_error_envelope_total_witness:
  "expressRouteAdapter (answering 500 JNull) (express_request (JObj []) []) [] =
     Inr [Status 500, Json (JObj [(''error'', JUndefined)])] \<and>
   fastifyRouteAdapter (answering 500 JUndefined) (fastify_request (JObj []) []) [] =
     Inr [ReplyStatus 500, Send (JObj [(''error'', JUndefined)])] \<and>
   expressRouteAdapter (answering 404 (JObj [(''detail'', JStr ''gone'')]))
     (express_request (JObj []) []) [] =
     Inr [Status 404, Json (JObj [(''error'', JUndefined)])] \<and>
   fastifyRouteAdapter (answering 404 (JObj [(''detail'', JStr ''gone'')]))
     (fastify_request (JObj []) []) [] =
     Inr [ReplyStatus 404, Send (JObj [(''error'', JUndefined)])] \<and>
   fastifyRouteAdapter (answering 503 (JStr ''busy'')) (fastify_request (JObj []) []) [] =
     Inr [ReplyStatus 503, Send (JObj [(''error'', JUndefined)])]"
  using adapters_error_envelope_total
    [of "\<lparr>statusCode = 500, body = JNull\<rparr>" "answering 500 JNull"
        "express_request (JObj []) []" "[]" "fastify_request (JObj []) []" "[]"]
    adapters_error_envelope_total
    [of "\<lparr>statusCode = 500, body = JUndefined\<rparr>" "answering 500 JUndefined"
        "express_request (JObj []) []" "[]" "fastify_request (JObj []) []" "[]"]
    adapters_error_envelope_total
    [of "\<lparr>statusCode = 404, body = JObj [(''detail'', JStr ''gone'')]\<rparr>"
        "answering 404 (JObj [(''detail'', JStr ''gone'')])"
        "express_request (JObj []) []" "[]" "fastify_request (JObj []) []" "[]"]
    adapters_error_envelope_total
    [of "\<lparr>statusCode = 503, body = JStr ''busy''\<rparr>" "answering 503 (JStr ''busy'')"
        "express_request (JObj []) []" "[]" "fastify_request (JObj []) []" "[]"]
  by (simp add: answering_def nullish_def)

text \<open>
  C7, as the claim states it, fails: the adapters copy the raw body and do not replace a
  missing one.  A Fastify request whose JSON payload is \<^verbatim>\<open>null\<close>, and an Express request on
  which no body was parsed, give a neutral request whose body is null, respectively
  undefined.
\<close>

theorem assembled_body_nullish_counterexample:
  "HttpRequest.body (fastifyHttpRequest (fastify_request JNull [])) = JNull \<and>
   HttpRequest.body (expressHttpRequest (express_request JUndefined [])) = JUndefined \<and>
   nullish (HttpRequest.body (fastifyHttpRequest (fastify_request JNull []))) \<and>
   nullish (HttpRequest.body (expressHttpRequest (express_request JUndefined [])))"
  by (simp add: fastifyHttpRequest_def expressHttpRequest_def fastify_request_def
      express_request_def nullish_def)

text \<open>
  C7, amended.  For every raw request, the neutral request that the handler of each adapter
  assembles carries the body, params, headers, userId and workspaceId of the raw request
  unchanged: an absent raw field stays absent, and the body is null or undefined exactly
  when the raw body is.  The extraction is total: it yields this request for every raw
  request and has no failing case.
\<close>

theorem assembled_request_copies_fields:
  "HttpRequest.body (expressHttpRequest req) = Request.body req \<and>
   HttpRequest.params (expressHttpRequest req) = Request.params req \<and>
   HttpRequest.headers (expressHttpRequest req) = Request.headers req \<and>
   HttpRequest.userId (expressHttpRequest req) = Request.userId req \<and>
   HttpRequest.workspaceId (expressHttpRequest req) = Request.workspaceId req \<and>
   HttpRequest.body (fastifyHttpRequest request) = FastifyRequest.body request \<and>
   HttpRequest.params (fastifyHttpRequest request) = FastifyRequest.params request \<and>
   HttpRequest.headers (fastifyHttpRequest request) = FastifyRequest.headers request \<and>
   HttpRequest.userId (fastifyHttpRequest request) = FastifyRequest.userId request \<and>
   HttpRequest.workspaceId (fastifyHttpRequest request) = FastifyRequest.workspaceId request \<and>
   nullish (HttpRequest.body (expressHttpRequest req)) = nullish (Request.body req) \<and>
   nullish (HttpRequest.body (fastifyHttpRequest request)) = nullish (FastifyRequest.body request)"
  by (simp add: expressHttpRequest_def fastifyHttpRequest_def)

theorem assembled_request_copies_fields_witness:
  "HttpRequest.body (expressHttpRequest (express_request (JObj []) [])) = JObj [] \<and>
   HttpRequest.userId (expressHttpRequest (express_request (JObj []) [])) = None \<and>
   HttpRequest.body (fastifyHttpRequest (fastify_request (JObj []) [])) = JObj [] \<and>
   HttpRequest.workspaceId (fastifyHttpRequest (fastify_request (JObj []) [])) = None \<and>
   \<not> nullish (HttpRequest.body (expressHttpRequest (express_request (JObj []) [])))"
  using assembled_request_copies_fields
    [of "express_request (JObj []) []" "fastify_request (JObj []) []"]
  by (simp add: express_request_def fastify_request_def nullish_def)


section \<open>The middleware\<close>

text \<open>
  C8, as the claim states it, fails: a \<^verbatim>\<open>userid\<close> header that is present with the empty
  string as its value does not become the userId; the \<^verbatim>\<open>||\<close> replaces it by
  \<^verbatim>\<open>default\<close>, in both apps.
\<close>

theorem simpleMiddleware_empty_userid_counterexample:
  "map_of [(''userid'', HString [])] ''userid'' = Some (HString []) \<and>
   Request.userId (simpleMiddleware_express (express_request (JObj []) [(''userid'', HString [])])) =
     Some ''default'' \<and>
   Request.userId (simpleMiddleware_express (express_request (JObj []) [(''userid'', HString [])])) \<noteq>
     Some (header_toString (HString [])) \<and>
   FastifyRequest.userId
     (simpleMiddleware_fastify (fastify_request (JObj []) [(''userid'', HString [])])) =
     Some ''default''"
  by (simp add: simpleMiddleware_express_def simpleMiddleware_fastify_def header_string_def
      express_request_def fastify_request_def)

text \<open>
  C8, amended.  In both apps \<^verbatim>\<open>simpleMiddleware\<close> sets userId to the string value of the
  \<^verbatim>\<open>userid\<close> header when the header is present and that string is not empty, and to
  \<^verbatim>\<open>default\<close> when the header is absent or its string value is empty; it sets workspaceId
  to the string value of the \<^verbatim>\<open>workspaceid\<close> header, empty or not, and leaves it
  undefined when that header is absent.
\<close>

theorem simpleMiddleware_sets_ids:
  "Request.userId (simpleMiddleware_express req) =
     Some (case map_of (Request.headers req) ''userid'' of
             None \<Rightarrow> ''default''
           | Some v \<Rightarrow> if header_toString v = [] then ''default'' else header_toString v) \<and>
   Request.workspaceId (simpleMiddleware_express req) =
     map_option header_toString (map_of (Request.headers req) ''workspaceid'') \<and>
   FastifyRequest.userId (simpleMiddleware_fastify request) =
     Some (case map_of (FastifyRequest.headers request) ''userid'' of
             None \<Rightarrow> ''default''
           | Some v \<Rightarrow> if header_toString v = [] then ''default'' else header_toString v) \<and>
   FastifyRequest.workspaceId (simpleMiddleware_fastify request) =
     map_option header_toString (map_of (FastifyRequest.headers request) ''workspaceid'')"
  by (simp add: simpleMiddleware_express_def simpleMiddleware_fastify_def header_string_def
      split: option.splits)

theorem simpleMiddleware_sets_ids_witness:
  "Request.userId (simpleMiddleware_express (express_request (JObj []) [(''userid'', HString ''u1'')])) =
     Some ''u1'' \<and>
   Request.workspaceId
     (simpleMiddleware_express (express_request (JObj []) [(''userid'', HString ''u1'')])) = None \<and>
   FastifyRequest.userId
     (simpleMiddleware_fastify (fastify_request (JObj []) [(''workspaceid'', HArray [''w1'', ''w2''])])) =
     Some ''default'' \<and>
   FastifyRequest.workspaceId
     (simpleMiddleware_fastify (fastify_request (JObj []) [(''workspaceid'', HArray [''w1'', ''w2''])])) =
     Some ''w1,w2''"
  using simpleMiddleware_sets_ids
    [of "express_request (JObj []) [(''userid'', HString ''u1'')]"
        "fastify_request (JObj []) [(''workspaceid'', HArray [''w1'', ''w2''])]"]
  by (simp add: express_request_def fastify_request_def)


section \<open>The greet route, end to end\<close>

lemma express_greet_ada:
  "express_greet (express_request (JObj [(''name'', JStr ''Ada'')]) []) [] =
     Inr [Status 200, Json (JObj [(''message'', JStr ''Hello, Ada!'')])]"
  by (simp add: express_greet_def expressRouteAdapter_def expressHttpRequest_def
      simpleMiddleware_express_def express_request_def handle_def get_prop_def nullish_def
      status_def json_def)

lemma fastify_greet_no_name:
  "fastify_greet (fastify_request (JObj []) []) [] =
     Inr [ReplyStatus 400, Send (JObj [(''error'', JStr ''Name is required'')])]"
  by (simp add: fastify_greet_def fastifyRouteAdapter_def fastifyHttpRequest_def
      simpleMiddleware_fastify_def fastify_request_def handle_def get_prop_def nullish_def
      opt_prop_def reply_status_def send_def)

lemma fastify_greet_null_body:
  "fastify_greet (fastify_request JNull []) [] = Inl TypeError"
  by (simp add: fastify_greet_def fastifyRouteAdapter_def fastifyHttpRequest_def
      simpleMiddleware_fastify_def fastify_request_def handle_def get_prop_def nullish_def)

end
